theory Spec2Isabelle
  imports Complex_Main
begin

section \<open>JavaScript values used by the enrollment analysis scripts\<close>

text \<open>
  The repository holds two variants of the enrollment analysis script. Both read a CSV
  file twice: pass 1 builds the session calendar (\<open>sessionDays\<close>) and the list of
  ignored sessions (\<open>blacklistedSessions\<close>), pass 2 classifies every row. The first
  variant has a configurable grace period, a per-class tally and a day-count rule in
  \<open>parseSessionDates\<close>; the second variant hardcodes 7 days and has neither. What the two
  share verbatim (\<open>monthNames\<close>, \<open>monthNameStrings\<close>, \<open>isBlacklisted\<close>,
  \<open>addSessionDay\<close>, \<open>getFirstClassDay\<close>, the pass-1 row handler) is modelled once;
  what differs carries the suffix \<open>_v2\<close> for the second variant.

  Modelling conventions.
  \<^item> A JavaScript string is a \<open>string\<close>; a \<open>char\<close> stands for one UTF-16 code unit
    below 256 (the Latin-1 range), so the theorems speak about strings of such code units.
  \<^item> A JavaScript number that holds an integer is an \<open>int\<close>. The source computes with
    IEEE doubles: \<open>parseInt\<close>, \<open>+ 1\<close> and the comparisons are exact on the integers of
    magnitude below \<open>2^53\<close> (\<open>safeInteger\<close>) and round beyond them, where the model stays
    exact. A claim's theorem that states a parsed number or a sum for all inputs
    carries the bound \<open>safeInteger\<close> on it, so that it states what the source computes;
    the concrete inputs are all far below the bound.
  \<^item> \<open>NaN\<close> is a value of its own (\<open>jsnum\<close>), \<open>undefined\<close> and \<open>null\<close> are \<open>None\<close>.
  \<^item> An exception is the left injection of a sum.
\<close>

datatype jsnum = NaN | Num int

datatype error = TypeError

text \<open>\<open>a > b\<close> on numbers: false as soon as one side is \<open>NaN\<close>.\<close>

fun js_gt :: "jsnum \<Rightarrow> jsnum \<Rightarrow> bool" where
  "js_gt (Num a) (Num b) = (a > b)"
| "js_gt _ _ = False"

fun js_add :: "jsnum \<Rightarrow> jsnum \<Rightarrow> jsnum" where
  "js_add (Num a) (Num b) = Num (a + b)"
| "js_add _ _ = NaN"

text \<open>
  \<open>Number.isSafeInteger\<close>: the integers of magnitude below \<open>2^53\<close>. A double holds each
  of them and each of their successors exactly, so on them \<open>parseInt\<close> returns the number
  the digits denote and \<open>n + 1\<close> is the mathematical sum.
\<close>

definition safeInteger :: "int \<Rightarrow> bool" where
  "safeInteger n \<longleftrightarrow> - (2 ^ 53) < n \<and> n < 2 ^ 53"

subsection \<open>Strings\<close>

text \<open>
  The white space that \<open>String.prototype.trim\<close> and \<open>parseInt\<close> strip, within the
  Latin-1 range: TAB, LF, VT, FF, CR, SP and NBSP.
\<close>

definition isWhiteSpace :: "char \<Rightarrow> bool" where
  "isWhiteSpace c \<longleftrightarrow>
     c \<in> {CHR 0x09, CHR 0x0A, CHR 0x0B, CHR 0x0C, CHR 0x0D, CHR 0x20, CHR 0xA0}"

definition trim :: "string \<Rightarrow> string" where
  "trim s = rev (dropWhile isWhiteSpace (rev (dropWhile isWhiteSpace s)))"

definition isDigit :: "char \<Rightarrow> bool" where
  "isDigit c \<longleftrightarrow> (48::nat) \<le> of_char c \<and> of_char c \<le> (57::nat)"

definition digitValue :: "char \<Rightarrow> int" where
  "digitValue c = int (of_char c) - 48"

definition digitsValue :: "string \<Rightarrow> int" where
  "digitsValue ds = foldl (\<lambda>acc c. 10 * acc + digitValue c) 0 ds"

text \<open>
  \<open>parseInt(s, 10)\<close>: leading white space is skipped, one sign is read, then the longest
  run of decimal digits; with no digit the result is \<open>NaN\<close> (here \<open>None\<close>). Whatever
  follows the digits is ignored. The value is the integer the digits denote; the source
  returns the double nearest to it, which is that integer when it is a \<open>safeInteger\<close>.
\<close>

definition parseInt :: "string \<Rightarrow> int option" where
  "parseInt s =
     (let t = dropWhile isWhiteSpace s;
          neg = (t \<noteq> [] \<and> hd t = CHR ''-'');
          u = (if t \<noteq> [] \<and> (hd t = CHR ''-'' \<or> hd t = CHR ''+'') then tl t else t);
          z = takeWhile isDigit u
      in if z = [] then None
         else Some (if neg then - digitsValue z else digitsValue z))"

definition isNaN :: "int option \<Rightarrow> bool" where
  "isNaN v \<longleftrightarrow> v = None"

definition toNum :: "int option \<Rightarrow> jsnum" where
  "toNum v = (case v of None \<Rightarrow> NaN | Some n \<Rightarrow> Num n)"

text \<open>
  \<open>toLowerCase\<close> on the Latin-1 range: A to Z and the accented capitals 0xC0 to 0xDE
  (without the multiplication sign 0xD7) move up by 32, which sets bit 5.
\<close>

definition isUpper :: "char \<Rightarrow> bool" where
  "isUpper c \<longleftrightarrow> (let n = (of_char c :: nat) in
     (65 \<le> n \<and> n \<le> 90) \<or> (192 \<le> n \<and> n \<le> 222 \<and> n \<noteq> 215))"

fun setBit5 :: "char \<Rightarrow> char" where
  "setBit5 (Char b0 b1 b2 b3 b4 b5 b6 b7) = Char b0 b1 b2 b3 b4 True b6 b7"

definition toLowerCase :: "string \<Rightarrow> string" where
  "toLowerCase s = map (\<lambda>c. if isUpper c then setBit5 c else c) s"

definition startsWith :: "string \<Rightarrow> string \<Rightarrow> bool" where
  "startsWith s p \<longleftrightarrow> take (length p) s = p"

text \<open>\<open>s.split('/')\<close>: the pieces between slashes, empty pieces included.\<close>

fun splitSlash :: "string \<Rightarrow> string \<Rightarrow> string list" where
  "splitSlash cur [] = [cur]"
| "splitSlash cur (c # cs) =
     (if c = CHR ''/'' then cur # splitSlash [] cs else splitSlash (cur @ [c]) cs)"

text \<open>
  \<open>s.split(/[ .]+/)\<close>: the pieces between maximal runs of spaces and periods. A run at
  the start or at the end of \<open>s\<close> leaves an empty piece there; the flag says that the
  previous character belonged to a run.
\<close>

definition isSeparator :: "char \<Rightarrow> bool" where
  "isSeparator c \<longleftrightarrow> c = CHR '' '' \<or> c = CHR ''.''"

fun splitRuns :: "string \<Rightarrow> bool \<Rightarrow> string \<Rightarrow> string list" where
  "splitRuns cur inRun [] = [cur]"
| "splitRuns cur inRun (c # cs) =
     (if isSeparator c
      then (if inRun then splitRuns cur True cs else cur # splitRuns [] True cs)
      else splitRuns (cur @ [c]) False cs)"

text \<open>
  \<open>s.match(/\(([^)]+)\)/)\<close>, group 1 of the leftmost match: at an opening parenthesis
  the class \<open>[^)]+\<close> takes every character up to the next closing parenthesis; the match
  needs at least one such character and the closing parenthesis itself. Otherwise the
  search goes on one character further.
\<close>

fun matchParens :: "string \<Rightarrow> string option" where
  "matchParens [] = None"
| "matchParens (c # cs) =
     (if c = CHR ''(''
         \<and> takeWhile (\<lambda>x. x \<noteq> CHR '')'') cs \<noteq> []
         \<and> dropWhile (\<lambda>x. x \<noteq> CHR '')'') cs \<noteq> []
      then Some (takeWhile (\<lambda>x. x \<noteq> CHR '')'') cs)
      else matchParens cs)"

section \<open>Tables and global state\<close>

definition monthTable :: "(string \<times> int) list" where
  "monthTable =
     [(''January'', 1), (''February'', 2), (''March'', 3), (''April'', 4), (''May'', 5),
      (''June'', 6), (''July'', 7), (''August'', 8), (''September'', 9),
      (''October'', 10), (''November'', 11), (''December'', 12)]"

text \<open>
  \<open>monthNames\<close>, \<open>sessionDays\<close> and \<open>monthlyEnrollmentCounts\<close> are object literals, so a
  lookup that finds no own property goes on to \<open>Object.prototype\<close>. These are its
  property names; every one of them holds a function or an object, which is truthy and
  converts to the number \<open>NaN\<close>.
\<close>

definition objectPrototypeKeys :: "string list" where
  "objectPrototypeKeys =
     [''constructor'', ''__defineGetter__'', ''__defineSetter__'', ''hasOwnProperty'',
      ''__lookupGetter__'', ''__lookupSetter__'', ''isPrototypeOf'',
      ''propertyIsEnumerable'', ''toString'', ''valueOf'', ''__proto__'',
      ''toLocaleString'']"

text \<open>What \<open>monthNames[token]\<close> yields when it is truthy.\<close>

datatype monthval = MonthNum int | Inherited string

definition monthNames :: "string \<Rightarrow> monthval option" where
  "monthNames k =
     (case map_of monthTable k of
        Some n \<Rightarrow> Some (MonthNum n)
      | None \<Rightarrow> if k \<in> set objectPrototypeKeys then Some (Inherited k) else None)"

text \<open>\<open>enrollMonth > v\<close> for a value read from \<open>monthNames\<close>.\<close>

fun gtMonth :: "int \<Rightarrow> monthval \<Rightarrow> bool" where
  "gtMonth m (MonthNum k) = (m > k)"
| "gtMonth m (Inherited _) = False"

text \<open>\<open>monthNameStrings[month]\<close>: an array of 13 strings, \<open>undefined\<close> outside 0..12.\<close>

definition monthNameStrings :: "int \<Rightarrow> string option" where
  "monthNameStrings m =
     (if 0 \<le> m \<and> m \<le> 12
      then Some ((''''  # map fst monthTable) ! nat m)
      else None)"

record sessionDate =
  year :: int
  month :: monthval
  day :: int

text \<open>
  A key is the template string \<open>${year}-${month}\<close>. The two parts determine the string and the string
  determines the two parts, so the key is kept as the pair.
\<close>

type_synonym key = "jsnum \<times> monthval"

record state =
  totalEnrollmentRows :: nat
  enrollmentsAfterFirstWeekOfSession :: nat
  monthlyEnrollmentCounts :: "key \<rightharpoonup> (string \<rightharpoonup> jsnum)"
  sessionDays :: "key \<rightharpoonup> int list"
  blacklistedSessions :: "string list"

definition initialState :: state where
  "initialState =
     \<lparr>totalEnrollmentRows = 0, enrollmentsAfterFirstWeekOfSession = 0,
      monthlyEnrollmentCounts = Map.empty, sessionDays = Map.empty,
      blacklistedSessions = []\<rparr>"

text \<open>A CSV row as the parser hands it over: a missing column reads \<open>undefined\<close>.\<close>

record row =
  Enroll_Date :: "string option"
  Session :: "string option"
  Class :: "string option"

definition isBlacklisted :: "string option \<Rightarrow> state \<Rightarrow> bool" where
  "isBlacklisted sessionStr st =
     (case sessionStr of None \<Rightarrow> False | Some s \<Rightarrow> s \<in> set (blacklistedSessions st))"

definition blacklist :: "string \<Rightarrow> state \<Rightarrow> state" where
  "blacklist sessionStr st =
     (if sessionStr \<in> set (blacklistedSessions st) then st
      else st\<lparr>blacklistedSessions := blacklistedSessions st @ [sessionStr]\<rparr>)"

text \<open>The day set of a key is a \<open>Set\<close>: a list without repetition, in insertion order.\<close>

definition addSessionDay :: "int \<Rightarrow> monthval \<Rightarrow> int \<Rightarrow> state \<Rightarrow> state" where
  "addSessionDay y m d st =
     (let k = (Num y, m);
          ds = (case sessionDays st k of None \<Rightarrow> [] | Some ds \<Rightarrow> ds)
      in st\<lparr>sessionDays := (sessionDays st)(k \<mapsto> (if d \<in> set ds then ds else ds @ [d]))\<rparr>)"

text \<open>\<open>null\<close> is \<open>None\<close>; otherwise the first element of the days sorted ascending.\<close>

definition getFirstClassDay :: "int \<Rightarrow> jsnum \<Rightarrow> state \<Rightarrow> int option" where
  "getFirstClassDay m y st =
     (case sessionDays st (y, MonthNum m) of
        None \<Rightarrow> None
      | Some ds \<Rightarrow> if length ds = 0 then None else Some (hd (sort ds)))"

section \<open>Pass 1: the session calendar\<close>

definition tokenize :: "string \<Rightarrow> string list" where
  "tokenize inner = filter (\<lambda>token. trim token \<noteq> []) (splitRuns [] False inner)"

text \<open>The tokens the first variant counts as day numbers.\<close>

definition isDayToken :: "string \<Rightarrow> bool" where
  "isDayToken token \<longleftrightarrow> monthNames token = None \<and> \<not> isNaN (parseInt token)"

text \<open>
  The loop over \<open>dayNumbers\<close>: every element is its predecessor plus one. The sum is
  the mathematical one, which is the source's sum on safe integers.
\<close>

fun isConsecutive :: "int list \<Rightarrow> bool" where
  "isConsecutive (a # b # rest) = (b = a + 1 \<and> isConsecutive (b # rest))"
| "isConsecutive _ = True"

text \<open>
  The special pattern: exactly 5 tokens, the first one truthy in \<open>monthNames\<close>, the other
  four parsing as numbers (\<open>those\<close> is \<open>None\<close> as soon as one is \<open>NaN\<close>) that are
  consecutive.
\<close>

definition isSpecialPattern :: "string list \<Rightarrow> bool" where
  "isSpecialPattern tokens \<longleftrightarrow>
     length tokens = 5 \<and> monthNames (hd tokens) \<noteq> None
     \<and> (case those (map parseInt (tl tokens)) of
          None \<Rightarrow> False
        | Some dayNumbers \<Rightarrow> isConsecutive dayNumbers)"

text \<open>
  Normal session parsing, the \<open>forEach\<close> over the tokens: \<open>cur\<close> is \<open>currentMonth\<close>
  (\<open>None\<close> for \<open>null\<close>), the result is what the loop pushes onto \<open>dates\<close>. The year
  \<open>enrollYear + 1\<close> is the mathematical sum, which is the source's sum when \<open>enrollYear\<close>
  is a safe integer.
\<close>

fun scanTokens :: "int \<Rightarrow> int \<Rightarrow> monthval option \<Rightarrow> string list \<Rightarrow> sessionDate list" where
  "scanTokens enrollYear enrollMonth cur [] = []"
| "scanTokens enrollYear enrollMonth cur (token # tokens) =
     (case monthNames token of
        Some m \<Rightarrow> scanTokens enrollYear enrollMonth (Some m) tokens
      | None \<Rightarrow>
          (case (parseInt token, cur) of
             (Some d, Some m) \<Rightarrow>
               \<lparr>year = (if gtMonth enrollMonth m then enrollYear + 1 else enrollYear),
                month = m, day = d\<rparr>
               # scanTokens enrollYear enrollMonth cur tokens
           | _ \<Rightarrow> scanTokens enrollYear enrollMonth cur tokens))"

text \<open>First variant: the day-count rule, the special pattern, normal parsing.\<close>

definition parseSessionDates :: "string \<Rightarrow> int \<Rightarrow> int \<Rightarrow> state \<Rightarrow> sessionDate list \<times> state" where
  "parseSessionDates sessionStr enrollYear enrollMonth st =
     (case matchParens sessionStr of
        None \<Rightarrow> ([], st)
      | Some matched \<Rightarrow>
          (let tokens = tokenize (trim matched);
               dayTokens = filter isDayToken tokens
           in if length dayTokens \<le> 3 then ([], blacklist sessionStr st)
              else if isSpecialPattern tokens then ([], blacklist sessionStr st)
              else (scanTokens enrollYear enrollMonth None tokens, st)))"

text \<open>Second variant: no day-count rule.\<close>

definition parseSessionDates_v2 :: "string \<Rightarrow> int \<Rightarrow> int \<Rightarrow> state \<Rightarrow> sessionDate list \<times> state" where
  "parseSessionDates_v2 sessionStr enrollYear enrollMonth st =
     (case matchParens sessionStr of
        None \<Rightarrow> ([], st)
      | Some matched \<Rightarrow>
          (let tokens = tokenize (trim matched)
           in if isSpecialPattern tokens then ([], blacklist sessionStr st)
              else (scanTokens enrollYear enrollMonth None tokens, st)))"

text \<open>
  The row handler of pass 1, the same text in both variants; \<open>parse\<close> is the variant's
  \<open>parseSessionDates\<close>. A falsy column is a missing one or an empty string.
\<close>

definition falsy :: "string option \<Rightarrow> bool" where
  "falsy v \<longleftrightarrow> v = None \<or> v = Some []"

definition pass1_onRow ::
  "(string \<Rightarrow> int \<Rightarrow> int \<Rightarrow> state \<Rightarrow> sessionDate list \<times> state) \<Rightarrow> row \<Rightarrow> state \<Rightarrow> state" where
  "pass1_onRow parse r st =
     (if falsy (Enroll_Date r) \<or> falsy (Session r) then st
      else
        (let enrollParts = splitSlash [] (the (Enroll_Date r)) in
         if length enrollParts \<noteq> 3 then st
         else
           (case (parseInt (enrollParts ! 0), parseInt (enrollParts ! 2)) of
              (Some enrollMonth, Some enrollYear) \<Rightarrow>
                (let (dates, st') = parse (the (Session r)) enrollYear enrollMonth st
                 in foldl (\<lambda>s d. addSessionDay (year d) (month d) (day d) s) st' dates)
            | _ \<Rightarrow> st)))"

definition pass1 ::
  "(string \<Rightarrow> int \<Rightarrow> int \<Rightarrow> state \<Rightarrow> sessionDate list \<times> state) \<Rightarrow> row list \<Rightarrow> state \<Rightarrow> state" where
  "pass1 parse rows st = foldl (\<lambda>s r. pass1_onRow parse r s) st rows"

section \<open>Pass 2: classification\<close>

text \<open>
  \<open>counts[classCategory]\<close> followed by \<open>counts[classCategory]++\<close> on one inner object of
  \<open>monthlyEnrollmentCounts\<close>. An own count that is falsy (0 or \<open>NaN\<close>) is reset to 0 and
  then incremented. Without an own property the lookup reaches \<open>Object.prototype\<close>: an
  inherited member is truthy, so nothing is initialised, and incrementing it stores
  \<open>NaN\<close> as an own property, except under \<open>__proto__\<close>, whose setter ignores a number.
\<close>

definition bumpClass :: "string \<Rightarrow> (string \<rightharpoonup> jsnum) \<Rightarrow> (string \<rightharpoonup> jsnum)" where
  "bumpClass classCategory counts =
     (case counts classCategory of
        Some (Num n) \<Rightarrow> counts(classCategory \<mapsto> Num (if n = 0 then 1 else n + 1))
      | Some NaN \<Rightarrow> counts(classCategory \<mapsto> Num 1)
      | None \<Rightarrow>
          if classCategory \<in> set objectPrototypeKeys
          then (if classCategory = ''__proto__'' then counts else counts(classCategory \<mapsto> NaN))
          else counts(classCategory \<mapsto> Num 1))"

definition tally :: "key \<Rightarrow> string \<Rightarrow> state \<Rightarrow> state" where
  "tally k classCategory st =
     (let counts = (case monthlyEnrollmentCounts st k of None \<Rightarrow> Map.empty | Some c \<Rightarrow> c)
      in st\<lparr>monthlyEnrollmentCounts :=
               (monthlyEnrollmentCounts st)(k \<mapsto> bumpClass classCategory counts)\<rparr>)"

definition countRow :: "state \<Rightarrow> state" where
  "countRow st = st\<lparr>totalEnrollmentRows := totalEnrollmentRows st + 1\<rparr>"

definition countLate :: "state \<Rightarrow> state" where
  "countLate st =
     st\<lparr>enrollmentsAfterFirstWeekOfSession := enrollmentsAfterFirstWeekOfSession st + 1\<rparr>"

text \<open>
  The year of the session as pass 2 estimates it: \<open>year++\<close> when the enrollment month
  exceeds \<open>monthNames[enrollMonthName]\<close>; the comparison with \<open>undefined\<close> is false.
\<close>

definition sessionYear :: "int \<Rightarrow> string \<Rightarrow> jsnum \<Rightarrow> jsnum" where
  "sessionYear m enrollMonthName y =
     (case monthNames enrollMonthName of
        Some v \<Rightarrow> if gtMonth m v then js_add y (Num 1) else y
      | None \<Rightarrow> y)"

text \<open>
  The row handler of pass 2, first variant; \<open>g\<close> is \<open>enrollmentGracePeriod\<close>, that is
  \<open>Number(process.argv[3] || 7)\<close>: an integer number of days, or \<open>NaN\<close> for an argument
  that is not a number. Reading \<open>toLowerCase\<close> of \<open>undefined\<close>, for a month number
  outside 0..12, throws.
\<close>

definition pass2_onRow :: "jsnum \<Rightarrow> row \<Rightarrow> state \<Rightarrow> error + state" where
  "pass2_onRow g r st0 =
     (let st = countRow st0;
          classCategory = (if falsy (Class r) then ''Unknown'' else the (Class r))
      in if isBlacklisted (Session r) st then Inr st
         else if falsy (Enroll_Date r) \<or> falsy (Session r) then Inr st
         else
           (let dateParts = splitSlash [] (the (Enroll_Date r));
                sessionStr = the (Session r)
            in if length dateParts \<noteq> 3 then Inr st
               else
                 (case (parseInt (dateParts ! 0), parseInt (dateParts ! 1)) of
                    (Some m, Some d) \<Rightarrow>
                      (case monthNameStrings m of
                         None \<Rightarrow> Inl TypeError
                       | Some enrollMonthName \<Rightarrow>
                           if \<not> startsWith (toLowerCase sessionStr) (toLowerCase enrollMonthName)
                           then Inr st
                           else
                             (let y = sessionYear m enrollMonthName
                                        (toNum (parseInt (dateParts ! 2)))
                              in case getFirstClassDay m y st of
                                   None \<Rightarrow> Inr st
                                 | Some firstClassDay \<Rightarrow>
                                     if js_gt (Num d) (js_add (Num firstClassDay) g)
                                     then Inr (tally (y, MonthNum m) classCategory (countLate st))
                                     else Inr st))
                  | _ \<Rightarrow> Inr st)))"

text \<open>
  Second variant: no class tally, and the threshold is \<open>getFirstClassDay(month, year) + 7\<close>
  with no test of the result; \<open>null + 7\<close> is 7.
\<close>

definition pass2_onRow_v2 :: "row \<Rightarrow> state \<Rightarrow> error + state" where
  "pass2_onRow_v2 r st0 =
     (let st = countRow st0
      in if isBlacklisted (Session r) st then Inr st
         else if falsy (Enroll_Date r) \<or> falsy (Session r) then Inr st
         else
           (let dateParts = splitSlash [] (the (Enroll_Date r));
                sessionStr = the (Session r)
            in if length dateParts \<noteq> 3 then Inr st
               else
                 (case (parseInt (dateParts ! 0), parseInt (dateParts ! 1)) of
                    (Some m, Some d) \<Rightarrow>
                      (case monthNameStrings m of
                         None \<Rightarrow> Inl TypeError
                       | Some enrollMonthName \<Rightarrow>
                           if \<not> startsWith (toLowerCase sessionStr) (toLowerCase enrollMonthName)
                           then Inr st
                           else
                             (let y = sessionYear m enrollMonthName
                                        (toNum (parseInt (dateParts ! 2)));
                                  firstWeekThreshold =
                                    (case getFirstClassDay m y st of None \<Rightarrow> 0 | Some f \<Rightarrow> f) + 7
                              in if d > firstWeekThreshold then Inr (countLate st) else Inr st))
                  | _ \<Rightarrow> Inr st)))"

text \<open>The rows in file order; an exception in a row handler ends the run.\<close>

fun pass2 :: "(row \<Rightarrow> state \<Rightarrow> error + state) \<Rightarrow> row list \<Rightarrow> state \<Rightarrow> error + state" where
  "pass2 onRow [] st = Inr st"
| "pass2 onRow (r # rows) st =
     (case onRow r st of Inl e \<Rightarrow> Inl e | Inr st' \<Rightarrow> pass2 onRow rows st')"

section \<open>The report\<close>

text \<open>
  \<open>enrollmentsAfterFirstWeekOfSession / totalEnrollmentRows * 100\<close> on doubles: 0/0 is
  \<open>NaN\<close>, a positive count over 0 is \<open>Infinity\<close>, anything else is finite (the rational
  is the exact value, which the double rounds).
\<close>

datatype percentage = PercentNaN | PercentInfinity | Percent rat

definition percent :: "nat \<Rightarrow> nat \<Rightarrow> percentage" where
  "percent late rows =
     (if rows = 0 then (if late = 0 then PercentNaN else PercentInfinity)
      else Percent (of_nat late / of_nat rows * 100))"

text \<open>
  What the completion handler of pass 2 prints first: the line
  \<open>Enrollments after the first week of session: after / total (decimal%)\<close>. Both
  variants compute the three values alike (the first prints \<open>decimal.toFixed(2)\<close>, the
  second \<open>decimal\<close>; both print \<open>NaN\<close> for \<open>NaN\<close>), and no branch raises or prints
  anything else instead.
\<close>

record report =
  factorAfter :: nat
  factorTotal :: nat
  decimal :: percentage

definition onComplete :: "state \<Rightarrow> report" where
  "onComplete st =
     \<lparr>factorAfter = enrollmentsAfterFirstWeekOfSession st,
      factorTotal = totalEnrollmentRows st,
      decimal = percent (enrollmentsAfterFirstWeekOfSession st) (totalEnrollmentRows st)\<rparr>"

text \<open>The primary execution lifecycle: pass 1, pass 2, the report.\<close>

definition main :: "jsnum \<Rightarrow> row list \<Rightarrow> error + report" where
  "main g rows =
     (case pass2 (pass2_onRow g) rows (pass1 parseSessionDates rows initialState) of
        Inl e \<Rightarrow> Inl e
      | Inr st \<Rightarrow> Inr (onComplete st))"

definition main_v2 :: "row list \<Rightarrow> error + report" where
  "main_v2 rows =
     (case pass2 pass2_onRow_v2 rows (pass1 parseSessionDates_v2 rows initialState) of
        Inl e \<Rightarrow> Inl e
      | Inr st \<Rightarrow> Inr (onComplete st))"

section \<open>Concrete inputs\<close>

text \<open>
  Four rows: one enrolled on day 20 of a session that starts on day 3, one whose session
  is the consecutive block that gets blacklisted, one without an enrollment date, one
  whose date has no slashes.
\<close>

definition rows0 :: "row list" where
  "rows0 =
    [\<lparr>Enroll_Date = Some ''05/20/2024'', Session = Some ''May Session (May 3 10 17 24)'',
      Class = Some ''Guppy''\<rparr>,
     \<lparr>Enroll_Date = Some ''05/04/2024'', Session = Some ''May Camp (May 6 7 8 9)'',
      Class = None\<rparr>,
     \<lparr>Enroll_Date = None, Session = Some ''May Session (May 3 10 17 24)'', Class = None\<rparr>,
     \<lparr>Enroll_Date = Some ''05-20-2024'', Session = Some ''May Session (May 3 10 17 24)'',
      Class = None\<rparr>]"

text \<open>
  One row whose session has no parenthesized schedule, so that pass 1 records no day for
  May 2024.
\<close>

definition rows1 :: "row list" where
  "rows1 =
    [\<lparr>Enroll_Date = Some ''05/20/2024'', Session = Some ''May Session'', Class = None\<rparr>]"

text \<open>Two rows enrolled in May: a session titled in capitals, and a June session.\<close>

definition rows2 :: "row list" where
  "rows2 =
    [\<lparr>Enroll_Date = Some ''05/20/2024'', Session = Some ''MAY Session (May 3 10 17 24)'',
      Class = None\<rparr>,
     \<lparr>Enroll_Date = Some ''05/20/2024'', Session = Some ''June Session (May 3 10 17 24)'',
      Class = None\<rparr>]"

text \<open>One row enrolled late in a session that starts on day 3, in a class named constructor.\<close>

definition rows3 :: "row list" where
  "rows3 =
    [\<lparr>Enroll_Date = Some ''05/20/2024'', Session = Some ''May Session (May 3 10 17 24)'',
      Class = Some ''constructor''\<rparr>]"

text \<open>Two rows of a session that starts on day 3: enrolled on day 10 and on day 11.\<close>

definition rows4 :: "row list" where
  "rows4 =
    [\<lparr>Enroll_Date = Some ''05/10/2024'', Session = Some ''May Session (May 3 10 17 24)'',
      Class = Some ''Guppy''\<rparr>,
     \<lparr>Enroll_Date = Some ''05/11/2024'', Session = Some ''May Session (May 3 10 17 24)'',
      Class = None\<rparr>]"

text \<open>The own property \<open>monthlyEnrollmentCounts[key][classCategory]\<close>, if there is one.\<close>

definition classCount :: "key \<Rightarrow> string \<Rightarrow> state \<Rightarrow> jsnum option" where
  "classCount k classCategory st =
     (case monthlyEnrollmentCounts st k of None \<Rightarrow> None | Some counts \<Rightarrow> counts classCategory)"

text \<open>
  Session strings: days before the first month and two months; ordinal day tokens; a
  consecutive block; a block with a gap at its end; a block with a gap at its start; two
  days only.
\<close>

definition sessionMixed :: string where
  "sessionMixed = ''Fall (5 6 May 7 14 21 28 January 4)''"

definition datesMixed :: "sessionDate list" where
  "datesMixed =
     [\<lparr>year = 2024, month = MonthNum 5, day = 7\<rparr>, \<lparr>year = 2024, month = MonthNum 5, day = 14\<rparr>,
      \<lparr>year = 2024, month = MonthNum 5, day = 21\<rparr>, \<lparr>year = 2024, month = MonthNum 5, day = 28\<rparr>,
      \<lparr>year = 2025, month = MonthNum 1, day = 4\<rparr>]"

definition sessionOrdinals :: string where
  "sessionOrdinals = ''Swim (May 7th 14th 21st 28th)''"

definition sessionBlock :: string where
  "sessionBlock = ''May Camp (May 6 7 8 9)''"

definition sessionGap :: string where
  "sessionGap = ''Summer (May 5 6 7 9)''"

definition sessionSkip :: string where
  "sessionSkip = ''Camp (June 5 7 8 9)''"

definition sessionShort :: string where
  "sessionShort = ''May Clinic (May 5 6)''"

text \<open>One row of the session with two days only, enrolled on day 20.\<close>

definition rowsShort :: "row list" where
  "rowsShort =
    [\<lparr>Enroll_Date = Some ''05/20/2024'', Session = Some sessionShort, Class = None\<rparr>]"

text \<open>A row whose enrollment date has the month number 13.\<close>

definition row13 :: row where
  "row13 =
    \<lparr>Enroll_Date = Some ''13/20/2024'', Session = Some ''May Session (May 3 10 17 24)'',
     Class = None\<rparr>"

section \<open>Unfolding the definitions on concrete inputs\<close>

lemmas string_defs =
  isWhiteSpace_def trim_def isDigit_def digitValue_def digitsValue_def parseInt_def
  isNaN_def toNum_def isUpper_def toLowerCase_def startsWith_def isSeparator_def

lemmas table_defs =
  monthTable_def objectPrototypeKeys_def monthNames_def monthNameStrings_def

lemmas pass1_defs =
  tokenize_def isDayToken_def isSpecialPattern_def parseSessionDates_def
  parseSessionDates_v2_def falsy_def pass1_onRow_def pass1_def blacklist_def
  addSessionDay_def initialState_def Let_def

lemmas pass2_defs =
  isBlacklisted_def getFirstClassDay_def bumpClass_def tally_def countRow_def countLate_def
  sessionYear_def pass2_onRow_def pass2_onRow_v2_def percent_def onComplete_def main_def
  main_v2_def

section \<open>The total-row counter\<close>

lemma pass2_onRow_total:
  "pass2_onRow g r st = Inr st' \<Longrightarrow> totalEnrollmentRows st' = totalEnrollmentRows st + 1"
  by (auto simp: pass2_onRow_def Let_def countRow_def countLate_def tally_def
      split: if_splits option.splits prod.splits)

lemma pass2_onRow_v2_total:
  "pass2_onRow_v2 r st = Inr st' \<Longrightarrow> totalEnrollmentRows st' = totalEnrollmentRows st + 1"
  by (auto simp: pass2_onRow_v2_def Let_def countRow_def countLate_def
      split: if_splits option.splits prod.splits)

lemma pass2_total:
  assumes step: "\<And>r s s'. onRow r s = Inr s' \<Longrightarrow> totalEnrollmentRows s' = totalEnrollmentRows s + 1"
  shows "pass2 onRow rows st = Inr st' \<Longrightarrow>
         totalEnrollmentRows st' = totalEnrollmentRows st + length rows"
proof (induction rows arbitrary: st)
  case Nil
  then show ?case by simp
next
  case (Cons r rows)
  then obtain s1 where s1: "onRow r st = Inr s1" and rest: "pass2 onRow rows s1 = Inr st'"
    by (auto split: sum.splits)
  from step[OF s1] Cons.IH[OF rest] show ?case by simp
qed


lemma pass2_total_v1:
  "pass2 (pass2_onRow g) rows st = Inr st' \<Longrightarrow>
   totalEnrollmentRows st' = totalEnrollmentRows st + length rows"
  by (rule pass2_total[where onRow = "pass2_onRow g"]) (rule pass2_onRow_total)

lemma pass2_total_v2:
  "pass2 pass2_onRow_v2 rows st = Inr st' \<Longrightarrow>
   totalEnrollmentRows st' = totalEnrollmentRows st + length rows"
  by (rule pass2_total[where onRow = pass2_onRow_v2]) (rule pass2_onRow_v2_total)

lemma blacklist_total [simp]: "totalEnrollmentRows (blacklist s st) = totalEnrollmentRows st"
  by (simp add: blacklist_def)

lemma addSessionDay_total [simp]:
  "totalEnrollmentRows (addSessionDay y m d st) = totalEnrollmentRows st"
  by (simp add: addSessionDay_def Let_def)

lemma addSessionDays_total:
  "totalEnrollmentRows (foldl (\<lambda>s d. addSessionDay (year d) (month d) (day d) s) st dates)
     = totalEnrollmentRows st"
  by (induction dates arbitrary: st) simp_all

lemma parseSessionDates_total:
  "totalEnrollmentRows (snd (parseSessionDates s ey em st)) = totalEnrollmentRows st"
  by (simp add: parseSessionDates_def Let_def split: option.splits)

lemma parseSessionDates_v2_total:
  "totalEnrollmentRows (snd (parseSessionDates_v2 s ey em st)) = totalEnrollmentRows st"
  by (simp add: parseSessionDates_v2_def Let_def split: option.splits)

lemma pass1_onRow_total:
  assumes "\<And>s ey em st. totalEnrollmentRows (snd (parse s ey em st)) = totalEnrollmentRows st"
  shows "totalEnrollmentRows (pass1_onRow parse r st) = totalEnrollmentRows st"
proof -
  have "totalEnrollmentRows
          (case parse s ey em st of
             (dates, st') \<Rightarrow> foldl (\<lambda>s d. addSessionDay (year d) (month d) (day d) s) st' dates)
        = totalEnrollmentRows st" for s ey em
    using assms[of s ey em st] by (cases "parse s ey em st") (simp add: addSessionDays_total)
  then show ?thesis
    by (simp add: pass1_onRow_def Let_def split: option.splits)
qed

lemma pass1_total:
  assumes "\<And>s ey em st. totalEnrollmentRows (snd (parse s ey em st)) = totalEnrollmentRows st"
  shows "totalEnrollmentRows (pass1 parse rows st) = totalEnrollmentRows st"
  unfolding pass1_def
  by (induction rows arbitrary: st) (simp_all add: pass1_onRow_total[OF assms])

lemma main_total: "main g rows = Inr rep \<Longrightarrow> factorTotal rep = length rows"
proof -
  assume a: "main g rows = Inr rep"
  then obtain st where st: "pass2 (pass2_onRow g) rows (pass1 parseSessionDates rows initialState) = Inr st"
    and rep: "rep = onComplete st"
    by (auto simp: main_def split: sum.splits)
  from pass2_total_v1[OF st]
  have "totalEnrollmentRows st = length rows"
    by (simp add: pass1_total[OF parseSessionDates_total] initialState_def)
  with rep show ?thesis by (simp add: onComplete_def)
qed

lemma main_v2_total: "main_v2 rows = Inr rep \<Longrightarrow> factorTotal rep = length rows"
proof -
  assume a: "main_v2 rows = Inr rep"
  then obtain st where st: "pass2 pass2_onRow_v2 rows (pass1 parseSessionDates_v2 rows initialState) = Inr st"
    and rep: "rep = onComplete st"
    by (auto simp: main_v2_def split: sum.splits)
  from pass2_total_v2[OF st]
  have "totalEnrollmentRows st = length rows"
    by (simp add: pass1_total[OF parseSessionDates_v2_total] initialState_def)
  with rep show ?thesis by (simp add: onComplete_def)
qed

lemma isBlacklisted_countRow [simp]: "isBlacklisted s (countRow st) = isBlacklisted s st"
  by (simp add: isBlacklisted_def countRow_def split: option.splits)

lemma rows0_main:
  "main (Num 7) rows0 = Inr \<lparr>factorAfter = 1, factorTotal = 4, decimal = Percent 25\<rparr>"
  by (simp add: rows0_def string_defs table_defs pass1_defs pass2_defs)

lemma rows0_main_v2:
  "main_v2 rows0 = Inr \<lparr>factorAfter = 1, factorTotal = 4, decimal = Percent 25\<rparr>"
  by (simp add: rows0_def string_defs table_defs pass1_defs pass2_defs)

lemma rows0_pass2: "\<exists>s. pass2 (pass2_onRow (Num 7)) rows0 initialState = Inr s"
  by (simp add: rows0_def string_defs table_defs pass1_defs pass2_defs)

lemma rows0_pass2_v2: "\<exists>s. pass2 pass2_onRow_v2 rows0 initialState = Inr s"
  by (simp add: rows0_def string_defs table_defs pass1_defs pass2_defs)

text \<open>
  Claim C9. When pass 2 completes, the total-row counter has grown by the number of input
  rows, in both variants, so the report's total is the number of rows. A row that is
  skipped because its session is blacklisted, a column is missing or empty, or the date
  is malformed (it does not split into three parts, or its month or day is not a number)
  still counts once: its handler returns the state with only the total incremented.
\<close>

theorem total_rows_counted:
  "(pass2 (pass2_onRow g) rows st = Inr st1 \<longrightarrow>
      totalEnrollmentRows st1 = totalEnrollmentRows st + length rows)
   \<and> (pass2 pass2_onRow_v2 rows st = Inr st2 \<longrightarrow>
      totalEnrollmentRows st2 = totalEnrollmentRows st + length rows)
   \<and> (main g rows = Inr rep1 \<longrightarrow> factorTotal rep1 = length rows)
   \<and> (main_v2 rows = Inr rep2 \<longrightarrow> factorTotal rep2 = length rows)
   \<and> (isBlacklisted (Session r) st \<or> falsy (Enroll_Date r) \<or> falsy (Session r)
        \<or> length (splitSlash [] (the (Enroll_Date r))) \<noteq> 3
        \<or> isNaN (parseInt (splitSlash [] (the (Enroll_Date r)) ! 0))
        \<or> isNaN (parseInt (splitSlash [] (the (Enroll_Date r)) ! 1)) \<longrightarrow>
      pass2_onRow g r st = Inr (countRow st) \<and> pass2_onRow_v2 r st = Inr (countRow st))"
proof -
  have skip: "pass2_onRow g r st = Inr (countRow st) \<and> pass2_onRow_v2 r st = Inr (countRow st)"
    if "isBlacklisted (Session r) st \<or> falsy (Enroll_Date r) \<or> falsy (Session r)
        \<or> length (splitSlash [] (the (Enroll_Date r))) \<noteq> 3
        \<or> isNaN (parseInt (splitSlash [] (the (Enroll_Date r)) ! 0))
        \<or> isNaN (parseInt (splitSlash [] (the (Enroll_Date r)) ! 1))"
    using that
    by (auto simp: pass2_onRow_def pass2_onRow_v2_def Let_def isNaN_def split: option.splits)
  show ?thesis
    using pass2_total_v1[of g rows st st1] pass2_total_v2[of rows st st2]
      main_total[of g rows rep1] main_v2_total[of rows rep2] skip
    by blast
qed

theorem total_rows_counted_witness:
  "(\<exists>s. pass2 (pass2_onRow (Num 7)) rows0 initialState = Inr s
        \<and> totalEnrollmentRows s = 4)
   \<and> (\<exists>s. pass2 pass2_onRow_v2 rows0 initialState = Inr s \<and> totalEnrollmentRows s = 4)
   \<and> main (Num 7) rows0 = Inr \<lparr>factorAfter = 1, factorTotal = 4, decimal = Percent 25\<rparr>
   \<and> main_v2 rows0 = Inr \<lparr>factorAfter = 1, factorTotal = 4, decimal = Percent 25\<rparr>
   \<and> length rows0 = 4
   \<and> falsy (Enroll_Date (rows0 ! 2))
   \<and> pass2_onRow (Num 7) (rows0 ! 2) initialState = Inr (countRow initialState)
   \<and> pass2_onRow_v2 (rows0 ! 2) initialState = Inr (countRow initialState)"
proof -
  obtain s1 where s1: "pass2 (pass2_onRow (Num 7)) rows0 initialState = Inr s1"
    using rows0_pass2 by blast
  obtain s2 where s2: "pass2 pass2_onRow_v2 rows0 initialState = Inr s2"
    using rows0_pass2_v2 by blast
  have len: "length rows0 = 4" by (simp add: rows0_def)
  have missing: "falsy (Enroll_Date (rows0 ! 2))" by (simp add: rows0_def falsy_def)
  have zero: "totalEnrollmentRows initialState = 0" by (simp add: initialState_def)
  note inst = total_rows_counted[of "Num 7" rows0 initialState s1 s2
      "\<lparr>factorAfter = 1, factorTotal = 4, decimal = Percent 25\<rparr>"
      "\<lparr>factorAfter = 1, factorTotal = 4, decimal = Percent 25\<rparr>" "rows0 ! 2"]
  from inst s1 have "totalEnrollmentRows s1 = 4" by (simp add: len zero)
  moreover from inst s2 have "totalEnrollmentRows s2 = 4" by (simp add: len zero)
  moreover from inst missing
  have "pass2_onRow (Num 7) (rows0 ! 2) initialState = Inr (countRow initialState)
        \<and> pass2_onRow_v2 (rows0 ! 2) initialState = Inr (countRow initialState)"
    by blast
  ultimately show ?thesis
    using s1 s2 rows0_main rows0_main_v2 len missing by blast
qed

section \<open>Session strings without a parenthesis pair\<close>

lemma matchParens_None:
  "CHR '')'' \<notin> set (dropWhile (\<lambda>c. c \<noteq> CHR ''('') s) \<Longrightarrow> matchParens s = None"
proof (induction s)
  case Nil
  show ?case by simp
next
  case (Cons c cs)
  show ?case
  proof (cases "c = CHR ''(''")
    case True
    with Cons.prems have no: "CHR '')'' \<notin> set cs" by simp
    then have "dropWhile (\<lambda>x. x \<noteq> CHR '')'') cs = []" by auto
    moreover from no have "CHR '')'' \<notin> set (dropWhile (\<lambda>c. c \<noteq> CHR ''('') cs)"
      using set_dropWhileD by fastforce
    ultimately show ?thesis using Cons.IH by simp
  next
    case False
    with Cons show ?thesis by simp
  qed
qed

text \<open>
  Claim C7. A session string with no parenthesis pair (no closing parenthesis after the
  first opening one, which covers a string with no parenthesis at all) yields zero dates
  and leaves the state as it is, the blacklist included, in both variants; a pass-1 row
  with that session changes nothing, the session calendar included.
\<close>

theorem no_parenthesis_pair_yields_nothing:
  assumes "CHR '')'' \<notin> set (dropWhile (\<lambda>c. c \<noteq> CHR ''('') sessionStr)"
  shows "parseSessionDates sessionStr enrollYear enrollMonth st = ([], st)
       \<and> parseSessionDates_v2 sessionStr enrollYear enrollMonth st = ([], st)
       \<and> pass1_onRow parseSessionDates (r\<lparr>Session := Some sessionStr\<rparr>) st = st
       \<and> pass1_onRow parseSessionDates_v2 (r\<lparr>Session := Some sessionStr\<rparr>) st = st"
proof -
  have none: "matchParens sessionStr = None"
    using assms by (rule matchParens_None)
  have p1: "parseSessionDates sessionStr ey em st = ([], st)" for ey em
    by (simp add: parseSessionDates_def none)
  have p2: "parseSessionDates_v2 sessionStr ey em st = ([], st)" for ey em
    by (simp add: parseSessionDates_v2_def none)
  have r1: "pass1_onRow parseSessionDates (r\<lparr>Session := Some sessionStr\<rparr>) st = st"
    by (simp add: pass1_onRow_def Let_def p1 split: option.splits)
  have r2: "pass1_onRow parseSessionDates_v2 (r\<lparr>Session := Some sessionStr\<rparr>) st = st"
    by (simp add: pass1_onRow_def Let_def p2 split: option.splits)
  from p1 p2 r1 r2 show ?thesis by simp
qed

theorem no_parenthesis_pair_witness:
  "CHR '')'' \<notin> set (dropWhile (\<lambda>c. c \<noteq> CHR ''('') ''May ) Session ('')
   \<and> parseSessionDates ''May ) Session ('' 2024 5 initialState = ([], initialState)
   \<and> parseSessionDates_v2 ''May ) Session ('' 2024 5 initialState = ([], initialState)
   \<and> pass1_onRow parseSessionDates
        \<lparr>Enroll_Date = Some ''05/20/2024'', Session = Some ''May ) Session ('', Class = None\<rparr>
        initialState = initialState
   \<and> pass1_onRow parseSessionDates_v2
        \<lparr>Enroll_Date = Some ''05/20/2024'', Session = Some ''May ) Session ('', Class = None\<rparr>
        initialState = initialState"
proof -
  have h: "CHR '')'' \<notin> set (dropWhile (\<lambda>c. c \<noteq> CHR ''('') ''May ) Session ('')"
    by simp
  from h no_parenthesis_pair_yields_nothing[OF h, of 2024 5 initialState
      "\<lparr>Enroll_Date = Some ''05/20/2024'', Session = None, Class = None\<rparr>"]
  show ?thesis by simp
qed

section \<open>A month with no recorded session day\<close>

text \<open>
  The query returns \<open>null\<close> for a key without days, and the first variant skips a row
  whose query returns \<open>null\<close>: only the total changes.
\<close>

lemma getFirstClassDay_countRow [simp]:
  "getFirstClassDay m y (countRow st) = getFirstClassDay m y st"
  by (simp add: getFirstClassDay_def countRow_def)

lemma getFirstClassDay_no_days:
  "sessionDays st (y, MonthNum m) = None \<or> sessionDays st (y, MonthNum m) = Some []
   \<Longrightarrow> getFirstClassDay m y st = None"
  by (auto simp: getFirstClassDay_def)

lemma pass2_onRow_no_first_day:
  assumes "Enroll_Date r = Some e" "splitSlash [] e = [a, b, c]" "parseInt a = Some m"
    "monthNameStrings m = Some name"
    "getFirstClassDay m (sessionYear m name (toNum (parseInt c))) st = None"
  shows "pass2_onRow g r st = Inr (countRow st)"
  using assms by (simp add: pass2_onRow_def Let_def split: option.splits)

text \<open>
  Claim C1. The query returns \<open>null\<close> for May 2024 after pass 1 over \<open>rows1\<close>, since no
  day was recorded. The row is enrolled on day 20. The first variant skips it; the second
  variant adds 7 to \<open>null\<close>, compares 20 with 7 and counts the row as enrolled after the
  grace period.
\<close>

theorem missing_first_class_day_v2:
  "getFirstClassDay 5 (Num 2024) (pass1 parseSessionDates_v2 rows1 initialState) = None
   \<and> main_v2 rows1 = Inr \<lparr>factorAfter = 1, factorTotal = 1, decimal = Percent 100\<rparr>
   \<and> main (Num 7) rows1 = Inr \<lparr>factorAfter = 0, factorTotal = 1, decimal = Percent 0\<rparr>"
  by (simp add: rows1_def string_defs table_defs pass1_defs pass2_defs)

section \<open>The report for an empty input\<close>








section \<open>The month prefix filter of pass 2\<close>

text \<open>
  A row whose enrollment month has the name \<open>name\<close> in \<open>monthNameStrings\<close> and whose
  session string does not start with that name, both in lower case, is skipped in both
  variants: only the total changes.
\<close>

lemma month_prefix_skip:
  assumes "Enroll_Date r = Some e" "Session r = Some s" "splitSlash [] e = [a, b, c]"
    "parseInt a = Some m" "monthNameStrings m = Some name"
    "\<not> startsWith (toLowerCase s) (toLowerCase name)"
  shows "pass2_onRow g r st = Inr (countRow st) \<and> pass2_onRow_v2 r st = Inr (countRow st)"
  using assms by (simp add: pass2_onRow_def pass2_onRow_v2_def Let_def split: option.splits)

text \<open>
  A row enrolled in month 5 whose session string begins with MAY is not stopped by the
  filter: both handlers go on to the first class day of the month and count the row as late
  exactly when its day exceeds the threshold.
\<close>

lemma capital_month_passes_filter:
  assumes e: "Enroll_Date r = Some e" and s: "Session r = Some (''MAY'' @ rest)"
    and nb: "\<not> isBlacklisted (Session r) st" and sp: "splitSlash [] e = [a, b, c]"
    and pm: "parseInt a = Some 5" and pd: "parseInt b = Some d"
    and f: "getFirstClassDay 5 (toNum (parseInt c)) st = Some f"
  shows "pass2_onRow g r st =
           Inr (if js_gt (Num d) (js_add (Num f) g)
                then tally (toNum (parseInt c), MonthNum 5)
                       (if falsy (Class r) then ''Unknown'' else the (Class r))
                       (countLate (countRow st))
                else countRow st)
       \<and> pass2_onRow_v2 r st = Inr (if d > f + 7 then countLate (countRow st) else countRow st)"
proof -
  from e sp have ne: "e \<noteq> []" by auto
  have may: "monthNameStrings 5 = Some ''May''"
    by (simp add: monthNameStrings_def monthTable_def)
  have pre: "startsWith (toLowerCase (''MAY'' @ rest)) (toLowerCase ''May'')"
    by (simp add: startsWith_def toLowerCase_def isUpper_def)
  have yr: "sessionYear 5 ''May'' y = y" for y
    by (simp add: sessionYear_def monthNames_def monthTable_def)
  show ?thesis
    using e s nb sp pm pd f ne may pre yr
    by (simp add: pass2_onRow_def pass2_onRow_v2_def Let_def falsy_def)
qed

lemma rows2_main:
  "main (Num 7) rows2 = Inr \<lparr>factorAfter = 1, factorTotal = 2, decimal = Percent 50\<rparr>
   \<and> main_v2 rows2 = Inr \<lparr>factorAfter = 1, factorTotal = 2, decimal = Percent 50\<rparr>"
  by (simp add: rows2_def string_defs table_defs pass1_defs pass2_defs)

text \<open>
  Claim C8. The claim has every row skipped unless its session string starts with the
  name of its enrollment month. The row \<open>row13\<close> has the month number 13, for which
  \<open>monthNameStrings\<close> has no entry: instead of skipping the row, the handler of either
  variant throws a TypeError when it reads \<open>toLowerCase\<close> of the missing name, and a run
  over rows that contain it ends without a report.
\<close>

theorem month_out_of_range_throws:
  "monthNameStrings 13 = None
   \<and> pass2_onRow (Num 7) row13 initialState = Inl TypeError
   \<and> pass2_onRow_v2 row13 initialState = Inl TypeError
   \<and> main (Num 7) (rows0 @ [row13]) = Inl TypeError
   \<and> main_v2 (rows0 @ [row13]) = Inl TypeError"
  by (simp add: rows0_def row13_def string_defs table_defs pass1_defs pass2_defs)

section \<open>Tokens: month names and day numbers\<close>

text \<open>
  No key of \<open>monthNames\<close>, own or inherited, parses as a number, so a token that parses
  is never a month token, and the tokens the first variant counts are the numeric tokens
  that are not one of the twelve month names.
\<close>

lemma keys_not_numeric_all:
  "list_all (\<lambda>k. parseInt k = None) (map fst monthTable @ objectPrototypeKeys)"
  by (simp add: monthTable_def objectPrototypeKeys_def string_defs Let_def)

lemma keys_not_numeric:
  "t \<in> set (map fst monthTable @ objectPrototypeKeys) \<Longrightarrow> parseInt t = None"
  using keys_not_numeric_all unfolding list_all_iff by blast

lemma monthNames_keys:
  "monthNames t \<noteq> None \<Longrightarrow> t \<in> set (map fst monthTable @ objectPrototypeKeys)"
proof (cases "map_of monthTable t")
  case None
  assume "monthNames t \<noteq> None"
  with None show ?thesis by (simp add: monthNames_def split: if_splits)
next
  case (Some n)
  then have "(t, n) \<in> set monthTable" by (rule map_of_SomeD)
  then have "t \<in> fst ` set monthTable" by force
  then show ?thesis by simp
qed

lemma parseInt_not_month: "parseInt t = Some d \<Longrightarrow> monthNames t = None"
  using keys_not_numeric[OF monthNames_keys[of t]] by (cases "monthNames t") auto

lemma isDayToken_iff:
  "isDayToken t \<longleftrightarrow> parseInt t \<noteq> None \<and> map_of monthTable t = None"
proof
  assume "isDayToken t"
  then show "parseInt t \<noteq> None \<and> map_of monthTable t = None"
    by (auto simp: isDayToken_def isNaN_def monthNames_def split: option.splits)
next
  assume a: "parseInt t \<noteq> None \<and> map_of monthTable t = None"
  then obtain d where "parseInt t = Some d" by auto
  from parseInt_not_month[OF this] a show "isDayToken t"
    by (simp add: isDayToken_def isNaN_def)
qed

lemma blacklist_member: "s \<in> set (blacklistedSessions (blacklist s st))"
  by (simp add: blacklist_def)

lemma those_Some_all: "those xs = Some ys \<Longrightarrow> \<forall>x\<in>set xs. x \<noteq> None"
  by (induction xs arbitrary: ys) (auto split: option.splits)

lemma special_has_four_days:
  assumes "isSpecialPattern tokens"
  shows "length (filter isDayToken tokens) \<ge> 4"
proof -
  from assms obtain ds where len: "length tokens = 5"
    and th: "those (map parseInt (tl tokens)) = Some ds"
    by (auto simp: isSpecialPattern_def split: option.splits)
  from those_Some_all[OF th] have "\<forall>t\<in>set (tl tokens). parseInt t \<noteq> None" by auto
  then have "\<forall>t\<in>set (tl tokens). isDayToken t"
    using parseInt_not_month by (auto simp: isDayToken_def isNaN_def)
  then have "filter isDayToken (tl tokens) = tl tokens" by simp
  moreover from len obtain t0 where "tokens = t0 # tl tokens" by (cases tokens) auto
  then have "length (filter isDayToken tokens) \<ge> length (filter isDayToken (tl tokens))"
    by (metis filter.simps(2) le_SucI order_refl length_Cons)
  ultimately show ?thesis using len by simp
qed

section \<open>Normal session parsing\<close>

lemma scanTokens_year:
  "d \<in> set (scanTokens ey em cur ts) \<Longrightarrow>
   year d = (if gtMonth em (month d) then ey + 1 else ey)"
  by (induction ts arbitrary: cur) (auto split: option.splits if_splits)

lemma scanTokens_before_month:
  "\<forall>t\<in>set pre. monthNames t = None \<Longrightarrow>
   scanTokens ey em None (pre @ rest) = scanTokens ey em None rest"
  by (induction pre) (auto split: option.splits)

lemma scanTokens_day:
  "parseInt t = Some d \<Longrightarrow>
   scanTokens ey em (Some m) (t # ts) =
     \<lparr>year = (if gtMonth em m then ey + 1 else ey), month = m, day = d\<rparr>
     # scanTokens ey em (Some m) ts"
  using parseInt_not_month[of t d] by simp

lemma parseInt_leading_digits:
  assumes "t \<noteq> []" "isDigit (hd t)"
  shows "parseInt t = Some (digitsValue (takeWhile isDigit t))"
proof -
  obtain c cs where t: "t = c # cs" using assms(1) by (cases t) auto
  with assms(2) have dig: "isDigit c" by simp
  then have nws: "\<not> isWhiteSpace c" and nsign: "c \<noteq> CHR ''-''" "c \<noteq> CHR ''+''"
    by (auto simp: isDigit_def isWhiteSpace_def)
  show ?thesis using dig nws nsign by (simp add: parseInt_def t Let_def)
qed

lemma parsed_dates_scanned:
  "d \<in> set (fst (parseSessionDates s ey em st)) \<or> d \<in> set (fst (parseSessionDates_v2 s ey em st))
   \<Longrightarrow> \<exists>tokens. d \<in> set (scanTokens ey em None tokens)"
  by (auto simp: parseSessionDates_def parseSessionDates_v2_def Let_def
      split: option.splits if_splits)

text \<open>
  Claim C6. For a safe-integer enrollment year, every date that \<open>parseSessionDates\<close>
  returns, in either variant, and every date that the token scan emits from any token
  list, has the year \<open>enrollYear + 1\<close> exactly when the enrollment month is greater than
  the month of the date, and \<open>enrollYear\<close> otherwise (a month value inherited from
  \<open>Object.prototype\<close> compares as \<open>NaN\<close>, so the year is \<open>enrollYear\<close>). Tokens before the
  first month token emit nothing: scanning with no current month yields no date for a
  prefix without month tokens and goes on as if the prefix were not there.
\<close>

theorem resolved_year_rule:
  "(safeInteger ey
      \<and> (d \<in> set (fst (parseSessionDates s ey em st))
          \<or> d \<in> set (fst (parseSessionDates_v2 s ey em st))
          \<or> d \<in> set (scanTokens ey em cur tokens)) \<longrightarrow>
      (case month d of
         MonthNum k \<Rightarrow> year d = (if em > k then ey + 1 else ey)
       | Inherited _ \<Rightarrow> year d = ey))
   \<and> ((\<forall>t\<in>set pre. monthNames t = None) \<longrightarrow>
        scanTokens ey em None pre = []
        \<and> scanTokens ey em None (pre @ rest) = scanTokens ey em None rest)"
proof -
  have a: "case month d of
             MonthNum k \<Rightarrow> year d = (if em > k then ey + 1 else ey)
           | Inherited _ \<Rightarrow> year d = ey"
    if "d \<in> set (fst (parseSessionDates s ey em st))
        \<or> d \<in> set (fst (parseSessionDates_v2 s ey em st))
        \<or> d \<in> set (scanTokens ey em cur tokens)"
  proof -
    from that parsed_dates_scanned[of d s ey em st] obtain c ts
      where "d \<in> set (scanTokens ey em c ts)" by blast
    from scanTokens_year[OF this] show ?thesis
      by (cases "month d") (simp_all split: if_splits)
  qed
  have b: "scanTokens ey em None pre = []" if "\<forall>t\<in>set pre. monthNames t = None"
    using scanTokens_before_month[OF that, of ey em "[]"] by simp
  from a b scanTokens_before_month[of pre ey em rest] show ?thesis by blast
qed

lemma sessionMixed_v1:
  "parseSessionDates sessionMixed 2024 3 initialState = (datesMixed, initialState)"
  by (simp add: sessionMixed_def datesMixed_def string_defs table_defs pass1_defs)

lemma sessionMixed_v2:
  "parseSessionDates_v2 sessionMixed 2024 3 initialState = (datesMixed, initialState)"
  by (simp add: sessionMixed_def datesMixed_def string_defs table_defs pass1_defs)

theorem resolved_year_rule_witness:
  "safeInteger 2024
   \<and> parseSessionDates sessionMixed 2024 3 initialState = (datesMixed, initialState)
   \<and> parseSessionDates_v2 sessionMixed 2024 3 initialState = (datesMixed, initialState)
   \<and> datesMixed ! 4 \<in> set datesMixed
   \<and> month (datesMixed ! 4) = MonthNum 1 \<and> year (datesMixed ! 4) = 2025
   \<and> month (datesMixed ! 0) = MonthNum 5 \<and> year (datesMixed ! 0) = 2024
   \<and> monthNames ''5'' = None \<and> monthNames ''6'' = None
   \<and> scanTokens 2024 3 None [''5'', ''6''] = []
   \<and> scanTokens 2024 3 None ([''5'', ''6''] @ [''May'', ''7''])
       = scanTokens 2024 3 None [''May'', ''7'']"
proof -
  have s: "safeInteger 2024" by (simp add: safeInteger_def)
  have m: "datesMixed ! 4 \<in> set datesMixed" "datesMixed ! 0 \<in> set datesMixed"
    by (simp_all add: datesMixed_def)
  have f: "month (datesMixed ! 4) = MonthNum 1" "month (datesMixed ! 0) = MonthNum 5"
    by (simp_all add: datesMixed_def)
  have n: "monthNames ''5'' = None" "monthNames ''6'' = None"
    by (simp_all add: table_defs)
  from resolved_year_rule[of 2024 "datesMixed ! 4" sessionMixed 3 initialState None "[]"
      "[''5'', ''6'']" "[''May'', ''7'']"]
    resolved_year_rule[of 2024 "datesMixed ! 0" sessionMixed 3 initialState None "[]"
      "[''5'', ''6'']" "[''May'', ''7'']"]
    sessionMixed_v1 sessionMixed_v2 s m f n
  show ?thesis by simp
qed

text \<open>
  Claim C10. A token that \<open>parseInt\<close> accepts is counted as a day token by the first
  variant and, with a current month set, emits a date whose day is the parsed number. A
  token that starts with a digit parses as its leading run of digits whatever follows:
  7th is day 7 and 5-6 is day 5. The numbers are safe integers.
\<close>

theorem day_token_prefix_parse:
  "(parseInt token = Some d \<and> safeInteger d \<and> safeInteger ey \<longrightarrow>
      isDayToken token
      \<and> scanTokens ey em (Some m) (token # tokens) =
          \<lparr>year = (if gtMonth em m then ey + 1 else ey), month = m, day = d\<rparr>
          # scanTokens ey em (Some m) tokens)
   \<and> (t \<noteq> [] \<and> isDigit (hd t) \<and> safeInteger (digitsValue (takeWhile isDigit t)) \<longrightarrow>
        parseInt t = Some (digitsValue (takeWhile isDigit t)))
   \<and> parseInt ''7th'' = Some 7 \<and> parseInt ''5-6'' = Some 5"
proof -
  have a: "isDayToken token" if "parseInt token = Some d"
    using that parseInt_not_month[OF that] by (simp add: isDayToken_def isNaN_def)
  have b: "parseInt ''7th'' = Some 7" "parseInt ''5-6'' = Some 5"
    by (simp_all add: string_defs Let_def)
  from a b scanTokens_day[of token d ey em m tokens] parseInt_leading_digits[of t]
  show ?thesis by blast
qed

theorem day_token_prefix_parse_witness:
  "parseInt ''7th'' = Some 7 \<and> safeInteger 7 \<and> safeInteger 2024 \<and> isDayToken ''7th''
   \<and> scanTokens 2024 6 (Some (MonthNum 5)) [''7th'', ''14th'']
       = \<lparr>year = 2025, month = MonthNum 5, day = 7\<rparr>
         # scanTokens 2024 6 (Some (MonthNum 5)) [''14th'']
   \<and> isDigit (hd ''5-6'') \<and> safeInteger (digitsValue (takeWhile isDigit ''5-6''))
   \<and> parseInt ''5-6'' = Some (digitsValue ''5'')
   \<and> parseSessionDates sessionOrdinals 2024 5 initialState =
       ([\<lparr>year = 2024, month = MonthNum 5, day = 7\<rparr>,
         \<lparr>year = 2024, month = MonthNum 5, day = 14\<rparr>,
         \<lparr>year = 2024, month = MonthNum 5, day = 21\<rparr>,
         \<lparr>year = 2024, month = MonthNum 5, day = 28\<rparr>], initialState)"
proof -
  have p: "parseInt ''7th'' = Some 7" by (simp add: string_defs Let_def)
  have s: "safeInteger 7" "safeInteger 2024" by (simp_all add: safeInteger_def)
  have g: "isDigit (hd ''5-6'')" "takeWhile isDigit ''5-6'' = ''5''"
    by (simp_all add: isDigit_def)
  have v: "safeInteger (digitsValue ''5'')"
    by (simp add: safeInteger_def digitsValue_def digitValue_def)
  have e: "parseSessionDates sessionOrdinals 2024 5 initialState =
       ([\<lparr>year = 2024, month = MonthNum 5, day = 7\<rparr>,
         \<lparr>year = 2024, month = MonthNum 5, day = 14\<rparr>,
         \<lparr>year = 2024, month = MonthNum 5, day = 21\<rparr>,
         \<lparr>year = 2024, month = MonthNum 5, day = 28\<rparr>], initialState)"
    by (simp add: sessionOrdinals_def string_defs table_defs pass1_defs)
  from day_token_prefix_parse[of "''7th''" 7 2024 6 "MonthNum 5" "[''14th'']" "''5-6''"]
    p s g v e
  show ?thesis by simp
qed

section \<open>The two rejection rules\<close>

text \<open>
  Claim C5. Take a session whose parenthesized text has exactly 5 tokens, a month name
  of the table followed by four tokens that parse as safe integers. When each of the four
  numbers is its predecessor plus one, the session is blacklisted and yields no dates, in
  both variants. When they are not (wherever the gap is), the session is not blacklisted:
  the state is returned as it was and the dates are the four days in that month, in the
  enrollment year when the enrollment month is at most the session month and in the next
  year otherwise. So for the text May 5 6 7 9 the dates are May 5, 6, 7 and 9, in the
  enrollment year when the enrollment month is at most 5 and in the next year otherwise.
\<close>

theorem consecutive_block_blacklisted:
  "(matchParens s = Some matched \<and> tokenize (trim matched) = [t0, t1, t2, t3, t4]
      \<and> map_of monthTable t0 = Some k
      \<and> parseInt t1 = Some d1 \<and> parseInt t2 = Some d2 \<and> parseInt t3 = Some d3
      \<and> parseInt t4 = Some d4
      \<and> safeInteger d1 \<and> safeInteger d2 \<and> safeInteger d3 \<and> safeInteger d4
      \<and> d2 = d1 + 1 \<and> d3 = d2 + 1 \<and> d4 = d3 + 1 \<longrightarrow>
      parseSessionDates s ey em st = ([], blacklist s st)
      \<and> parseSessionDates_v2 s ey em st = ([], blacklist s st)
      \<and> s \<in> set (blacklistedSessions (blacklist s st)))
   \<and> (matchParens s = Some matched \<and> tokenize (trim matched) = [t0, t1, t2, t3, t4]
      \<and> map_of monthTable t0 = Some k
      \<and> parseInt t1 = Some d1 \<and> parseInt t2 = Some d2 \<and> parseInt t3 = Some d3
      \<and> parseInt t4 = Some d4
      \<and> safeInteger d1 \<and> safeInteger d2 \<and> safeInteger d3 \<and> safeInteger d4
      \<and> safeInteger ey
      \<and> \<not> (d2 = d1 + 1 \<and> d3 = d2 + 1 \<and> d4 = d3 + 1) \<longrightarrow>
      parseSessionDates s ey em st =
        (map (\<lambda>d. \<lparr>year = (if em > k then ey + 1 else ey), month = MonthNum k, day = d\<rparr>)
           [d1, d2, d3, d4], st)
      \<and> parseSessionDates_v2 s ey em st =
        (map (\<lambda>d. \<lparr>year = (if em > k then ey + 1 else ey), month = MonthNum k, day = d\<rparr>)
           [d1, d2, d3, d4], st))
   \<and> (matchParens s' = Some ''May 5 6 7 9'' \<and> safeInteger ey \<longrightarrow>
      parseSessionDates s' ey em st =
        (map (\<lambda>d. \<lparr>year = (if em > 5 then ey + 1 else ey), month = MonthNum 5, day = d\<rparr>)
           [5, 6, 7, 9], st)
      \<and> parseSessionDates_v2 s' ey em st =
        (map (\<lambda>d. \<lparr>year = (if em > 5 then ey + 1 else ey), month = MonthNum 5, day = d\<rparr>)
           [5, 6, 7, 9], st))"
proof -
  have five: "(if d2 = d1 + 1 \<and> d3 = d2 + 1 \<and> d4 = d3 + 1
       then parseSessionDates s ey em st = ([], blacklist s st)
          \<and> parseSessionDates_v2 s ey em st = ([], blacklist s st)
       else parseSessionDates s ey em st =
          (map (\<lambda>d. \<lparr>year = (if em > k then ey + 1 else ey), month = MonthNum k, day = d\<rparr>)
             [d1, d2, d3, d4], st)
          \<and> parseSessionDates_v2 s ey em st =
          (map (\<lambda>d. \<lparr>year = (if em > k then ey + 1 else ey), month = MonthNum k, day = d\<rparr>)
             [d1, d2, d3, d4], st))"
    if m: "matchParens s = Some matched" and tk: "tokenize (trim matched) = [t0, t1, t2, t3, t4]"
      and mo: "map_of monthTable t0 = Some k"
      and p: "parseInt t1 = Some d1" "parseInt t2 = Some d2" "parseInt t3 = Some d3"
        "parseInt t4 = Some d4"
  proof -
    from mo have m0: "monthNames t0 = Some (MonthNum k)" by (simp add: monthNames_def)
    then have n0: "\<not> isDayToken t0" by (simp add: isDayToken_def)
    from p have nm: "monthNames t1 = None" "monthNames t2 = None" "monthNames t3 = None"
      "monthNames t4 = None"
      using parseInt_not_month by blast+
    with p have days: "isDayToken t1" "isDayToken t2" "isDayToken t3" "isDayToken t4"
      by (simp_all add: isDayToken_def isNaN_def)
    have cnt: "length (filter isDayToken [t0, t1, t2, t3, t4]) = 4"
      using n0 days by simp
    have sp: "isSpecialPattern [t0, t1, t2, t3, t4]
        \<longleftrightarrow> d2 = d1 + 1 \<and> d3 = d2 + 1 \<and> d4 = d3 + 1"
      using m0 p by (simp add: isSpecialPattern_def)
    have sc: "scanTokens ey em None [t0, t1, t2, t3, t4] =
        map (\<lambda>d. \<lparr>year = (if em > k then ey + 1 else ey), month = MonthNum k, day = d\<rparr>)
          [d1, d2, d3, d4]"
      using m0 p nm by simp
    show ?thesis
      using m tk cnt sp sc
      by (simp add: parseSessionDates_def parseSessionDates_v2_def Let_def)
  qed
  have may: "parseSessionDates s' ey em st =
        (map (\<lambda>d. \<lparr>year = (if em > 5 then ey + 1 else ey), month = MonthNum 5, day = d\<rparr>)
           [5, 6, 7, 9], st)
      \<and> parseSessionDates_v2 s' ey em st =
        (map (\<lambda>d. \<lparr>year = (if em > 5 then ey + 1 else ey), month = MonthNum 5, day = d\<rparr>)
           [5, 6, 7, 9], st)"
    if m': "matchParens s' = Some ''May 5 6 7 9''"
  proof -
    have tok: "tokenize (trim ''May 5 6 7 9'') = [''May'', ''5'', ''6'', ''7'', ''9'']"
      by (simp add: tokenize_def string_defs)
    have cnt: "length (filter isDayToken [''May'', ''5'', ''6'', ''7'', ''9'']) = 4"
      by (simp add: isDayToken_def string_defs table_defs Let_def)
    have nsp: "\<not> isSpecialPattern [''May'', ''5'', ''6'', ''7'', ''9'']"
      by (simp add: isSpecialPattern_def string_defs table_defs Let_def)
    have sc: "scanTokens ey em None [''May'', ''5'', ''6'', ''7'', ''9''] =
        map (\<lambda>d. \<lparr>year = (if em > 5 then ey + 1 else ey), month = MonthNum 5, day = d\<rparr>)
          [5, 6, 7, 9]"
      by (simp add: string_defs table_defs Let_def)
    show ?thesis
      using m' tok cnt nsp sc
      by (simp add: parseSessionDates_def parseSessionDates_v2_def Let_def)
  qed
  from five may blacklist_member[of s st] show ?thesis by (auto split: if_splits)
qed

theorem consecutive_block_witness:
  "matchParens sessionBlock = Some ''May 6 7 8 9''
   \<and> tokenize (trim ''May 6 7 8 9'') = [''May'', ''6'', ''7'', ''8'', ''9'']
   \<and> map_of monthTable ''May'' = Some 5
   \<and> parseInt ''6'' = Some 6 \<and> parseInt ''7'' = Some 7 \<and> parseInt ''8'' = Some 8
   \<and> parseInt ''9'' = Some 9
   \<and> safeInteger 6 \<and> safeInteger 7 \<and> safeInteger 8 \<and> safeInteger 9 \<and> safeInteger 2024
   \<and> parseSessionDates sessionBlock 2024 5 initialState = ([], blacklist sessionBlock initialState)
   \<and> parseSessionDates_v2 sessionBlock 2024 5 initialState
       = ([], blacklist sessionBlock initialState)
   \<and> blacklistedSessions (blacklist sessionBlock initialState) = [sessionBlock]
   \<and> matchParens sessionSkip = Some ''June 5 7 8 9''
   \<and> tokenize (trim ''June 5 7 8 9'') = [''June'', ''5'', ''7'', ''8'', ''9'']
   \<and> map_of monthTable ''June'' = Some 6 \<and> parseInt ''5'' = Some 5 \<and> safeInteger 5
   \<and> parseSessionDates sessionSkip 2024 7 initialState =
       ([\<lparr>year = 2025, month = MonthNum 6, day = 5\<rparr>,
         \<lparr>year = 2025, month = MonthNum 6, day = 7\<rparr>,
         \<lparr>year = 2025, month = MonthNum 6, day = 8\<rparr>,
         \<lparr>year = 2025, month = MonthNum 6, day = 9\<rparr>], initialState)
   \<and> parseSessionDates_v2 sessionSkip 2024 7 initialState =
       ([\<lparr>year = 2025, month = MonthNum 6, day = 5\<rparr>,
         \<lparr>year = 2025, month = MonthNum 6, day = 7\<rparr>,
         \<lparr>year = 2025, month = MonthNum 6, day = 8\<rparr>,
         \<lparr>year = 2025, month = MonthNum 6, day = 9\<rparr>], initialState)
   \<and> matchParens sessionGap = Some ''May 5 6 7 9''
   \<and> parseSessionDates sessionGap 2024 6 initialState =
       ([\<lparr>year = 2025, month = MonthNum 5, day = 5\<rparr>,
         \<lparr>year = 2025, month = MonthNum 5, day = 6\<rparr>,
         \<lparr>year = 2025, month = MonthNum 5, day = 7\<rparr>,
         \<lparr>year = 2025, month = MonthNum 5, day = 9\<rparr>], initialState)
   \<and> parseSessionDates_v2 sessionGap 2024 5 initialState =
       ([\<lparr>year = 2024, month = MonthNum 5, day = 5\<rparr>,
         \<lparr>year = 2024, month = MonthNum 5, day = 6\<rparr>,
         \<lparr>year = 2024, month = MonthNum 5, day = 7\<rparr>,
         \<lparr>year = 2024, month = MonthNum 5, day = 9\<rparr>], initialState)"
proof -
  have m: "matchParens sessionBlock = Some ''May 6 7 8 9''" by (simp add: sessionBlock_def)
  have t: "tokenize (trim ''May 6 7 8 9'') = [''May'', ''6'', ''7'', ''8'', ''9'']"
    by (simp add: tokenize_def string_defs)
  have mo: "map_of monthTable ''May'' = Some 5" "map_of monthTable ''June'' = Some 6"
    by (simp_all add: monthTable_def)
  have p: "parseInt ''5'' = Some 5" "parseInt ''6'' = Some 6" "parseInt ''7'' = Some 7"
    "parseInt ''8'' = Some 8" "parseInt ''9'' = Some 9"
    by (simp_all add: string_defs Let_def)
  have sf: "safeInteger 5" "safeInteger 6" "safeInteger 7" "safeInteger 8" "safeInteger 9"
    "safeInteger 2024"
    by (simp_all add: safeInteger_def)
  have b: "blacklistedSessions (blacklist sessionBlock initialState) = [sessionBlock]"
    by (simp add: blacklist_def initialState_def)
  have ms: "matchParens sessionSkip = Some ''June 5 7 8 9''" by (simp add: sessionSkip_def)
  have ts: "tokenize (trim ''June 5 7 8 9'') = [''June'', ''5'', ''7'', ''8'', ''9'']"
    by (simp add: tokenize_def string_defs)
  have m': "matchParens sessionGap = Some ''May 5 6 7 9''" by (simp add: sessionGap_def)
  from consecutive_block_blacklisted[of sessionBlock "''May 6 7 8 9''" "''May''" "''6''" "''7''"
      "''8''" "''9''" 5 6 7 8 9 2024 5 initialState sessionGap]
    consecutive_block_blacklisted[of sessionSkip "''June 5 7 8 9''" "''June''" "''5''" "''7''"
      "''8''" "''9''" 6 5 7 8 9 2024 7 initialState sessionGap]
    consecutive_block_blacklisted[of sessionBlock "''May 6 7 8 9''" "''May''" "''6''" "''7''"
      "''8''" "''9''" 5 6 7 8 9 2024 6 initialState sessionGap]
    m t mo p sf b ms ts m'
  show ?thesis by simp
qed

text \<open>
  In the first variant a session whose parenthesized text (the match of the pattern) has
  3 or fewer numeric tokens that are not month names is added to the blacklist and yields
  no dates, so its row leaves the session calendar as it was. The second variant returns
  the state unchanged for such a session and resolves its tokens normally. A pair of
  parentheses with nothing between them is no match of the pattern, so such a session is
  not blacklisted by either variant.
\<close>

lemma few_day_tokens_blacklisted:
  assumes m: "matchParens s = Some matched"
    and few: "length (filter (\<lambda>t. parseInt t \<noteq> None \<and> map_of monthTable t = None)
        (tokenize (trim matched))) \<le> 3"
  shows "parseSessionDates s ey em st = ([], blacklist s st)
     \<and> s \<in> set (blacklistedSessions (blacklist s st))
     \<and> sessionDays (pass1_onRow parseSessionDates (r\<lparr>Session := Some s\<rparr>) st) = sessionDays st
     \<and> parseSessionDates_v2 s ey em st = (scanTokens ey em None (tokenize (trim matched)), st)"
proof -
  have eq: "filter isDayToken (tokenize (trim matched))
      = filter (\<lambda>t. parseInt t \<noteq> None \<and> map_of monthTable t = None) (tokenize (trim matched))"
    by (rule filter_cong) (simp_all add: isDayToken_iff)
  with few have few': "length (filter isDayToken (tokenize (trim matched))) \<le> 3" by simp
  have p: "parseSessionDates s ey' em' st = ([], blacklist s st)" for ey' em'
    using m few' by (simp add: parseSessionDates_def Let_def)
  have nsp: "\<not> isSpecialPattern (tokenize (trim matched))"
    using special_has_four_days[of "tokenize (trim matched)"] few' by auto
  have v2: "parseSessionDates_v2 s ey em st = (scanTokens ey em None (tokenize (trim matched)), st)"
    using m nsp by (simp add: parseSessionDates_v2_def Let_def)
  have days: "sessionDays (blacklist s st) = sessionDays st" by (simp add: blacklist_def)
  have row: "sessionDays (pass1_onRow parseSessionDates (r\<lparr>Session := Some s\<rparr>) st)
      = sessionDays st"
    by (simp add: pass1_onRow_def Let_def p days split: option.splits)
  from p v2 row blacklist_member show ?thesis by simp
qed

lemma empty_parentheses_not_blacklisted:
  "parseSessionDates ''Foo ()'' ey em st = ([], st)
   \<and> parseSessionDates_v2 ''Foo ()'' ey em st = ([], st)"
  by (simp add: parseSessionDates_def parseSessionDates_v2_def)

text \<open>
  Claim C2. The claim has every session with 3 or fewer day tokens blacklisted, with no
  day added to the calendar. The session of \<open>rowsShort\<close> has the two day tokens 5 and 6.
  The first variant blacklists it and reports 0 / 1. The second variant has no day-count
  rule: it returns the two dates and leaves the blacklist empty, pass 1 records the days 5
  and 6 for May 2024, and the row, enrolled on day 20, is counted as late: 1 / 1.
\<close>

theorem few_day_tokens_kept_v2:
  "matchParens sessionShort = Some ''May 5 6''
   \<and> length (filter isDayToken (tokenize (trim ''May 5 6''))) = 2
   \<and> parseSessionDates sessionShort 2024 5 initialState
       = ([], blacklist sessionShort initialState)
   \<and> blacklistedSessions (blacklist sessionShort initialState) = [sessionShort]
   \<and> parseSessionDates_v2 sessionShort 2024 5 initialState =
       ([\<lparr>year = 2024, month = MonthNum 5, day = 5\<rparr>,
         \<lparr>year = 2024, month = MonthNum 5, day = 6\<rparr>], initialState)
   \<and> blacklistedSessions initialState = []
   \<and> sessionDays (pass1 parseSessionDates_v2 rowsShort initialState) (Num 2024, MonthNum 5)
       = Some [5, 6]
   \<and> sessionDays (pass1 parseSessionDates rowsShort initialState) (Num 2024, MonthNum 5) = None
   \<and> main_v2 rowsShort = Inr \<lparr>factorAfter = 1, factorTotal = 1, decimal = Percent 100\<rparr>
   \<and> main (Num 7) rowsShort = Inr \<lparr>factorAfter = 0, factorTotal = 1, decimal = Percent 0\<rparr>"
  by (simp add: rowsShort_def sessionShort_def string_defs table_defs pass1_defs pass2_defs)

section \<open>Classification against the grace period\<close>

text \<open>
  A row that reaches the classification in the first variant: the late counter grows
  exactly when the enrollment day is greater than the first class day plus the grace
  period, and then the class tally of the key is bumped, under Unknown without a class.
  With a first class day of 3 and a grace period of 7, day 10 is not counted and day 11
  is. For a class name that is not a member of \<open>Object.prototype\<close> the bump adds one to
  the own count.
\<close>

lemma pass2_onRow_classified:
  assumes "\<not> isBlacklisted (Session r) st" "Enroll_Date r = Some e" "Session r = Some s"
    "s \<noteq> []" "splitSlash [] e = [a, b, c]" "parseInt a = Some m" "parseInt b = Some d"
    "monthNameStrings m = Some name" "startsWith (toLowerCase s) (toLowerCase name)"
    "y = sessionYear m name (toNum (parseInt c))" "getFirstClassDay m y st = Some f"
  shows "pass2_onRow g r st =
     Inr (if js_gt (Num d) (js_add (Num f) g)
          then tally (y, MonthNum m) (if falsy (Class r) then ''Unknown'' else the (Class r))
                 (countLate (countRow st))
          else countRow st)"
proof -
  from assms(2,5) have "e \<noteq> []" by auto
  with assms show ?thesis
    by (simp add: pass2_onRow_def Let_def falsy_def)
qed

lemma late_counter_tally [simp]:
  "enrollmentsAfterFirstWeekOfSession (tally k cat st) = enrollmentsAfterFirstWeekOfSession st"
  by (simp add: tally_def Let_def)

lemma grace_period_threshold:
  assumes "\<not> isBlacklisted (Session r) st" "Enroll_Date r = Some e" "Session r = Some s"
    "s \<noteq> []" "splitSlash [] e = [a, b, c]" "parseInt a = Some m" "parseInt b = Some d"
    "monthNameStrings m = Some name" "startsWith (toLowerCase s) (toLowerCase name)"
    "getFirstClassDay m (sessionYear m name (toNum (parseInt c))) st = Some f"
    "pass2_onRow g r st = Inr st'"
  shows "enrollmentsAfterFirstWeekOfSession st' =
           enrollmentsAfterFirstWeekOfSession st
             + (if js_gt (Num d) (js_add (Num f) g) then 1 else 0)"
  using pass2_onRow_classified[OF assms(1-9) refl assms(10), of g] assms(11)
  by (auto simp: countLate_def countRow_def split: if_splits)

lemma tally_own_count:
  "classCategory \<notin> set objectPrototypeKeys \<Longrightarrow>
   classCount k classCategory (tally k classCategory st) =
     Some (Num (1 + (case classCount k classCategory st of Some (Num n) \<Rightarrow> n | _ \<Rightarrow> 0)))"
  by (auto simp: classCount_def tally_def bumpClass_def Let_def split: option.splits jsnum.splits)

lemma rows4_main:
  "main (Num 7) rows4 = Inr \<lparr>factorAfter = 1, factorTotal = 2, decimal = Percent 50\<rparr>"
  by (simp add: rows4_def string_defs table_defs pass1_defs pass2_defs)

lemma rows4_tally:
  "case pass2 (pass2_onRow (Num 7)) rows4 (pass1 parseSessionDates rows4 initialState) of
     Inl e \<Rightarrow> False
   | Inr st \<Rightarrow>
       getFirstClassDay 5 (Num 2024) st = Some 3
       \<and> enrollmentsAfterFirstWeekOfSession st = 1
       \<and> classCount (Num 2024, MonthNum 5) ''Unknown'' st = Some (Num 1)
       \<and> classCount (Num 2024, MonthNum 5) ''Guppy'' st = None"
  by (simp add: rows4_def classCount_def string_defs table_defs pass1_defs pass2_defs)

text \<open>
  Claim C4 on a class named constructor. The row of \<open>rows3\<close> is enrolled on day 20 with a
  first class day of 3 and a grace period of 7, so the late counter becomes 1. The tally
  finds the inherited \<open>constructor\<close> member, which is truthy, skips the initialisation to
  0 and increments the member: the own count stored is \<open>NaN\<close>, not 1.
\<close>

theorem inherited_class_name_tally:
  "case pass2 (pass2_onRow (Num 7)) rows3 (pass1 parseSessionDates rows3 initialState) of
     Inl e \<Rightarrow> False
   | Inr st \<Rightarrow>
       enrollmentsAfterFirstWeekOfSession st = 1
       \<and> classCount (Num 2024, MonthNum 5) ''constructor'' st = Some NaN"
  by (simp add: rows3_def classCount_def string_defs table_defs pass1_defs pass2_defs)

end
